theory Spec2Isabelle
  imports Main
begin

section \<open>The dead-code detector of scripts/check\_dead\_code.py\<close>

text \<open>
  The script walks a source tree, extracts import specifiers and export names from every
  file with regular expressions, resolves the specifiers to files, and reports the files
  that nothing imports (unused), the files with neither imports nor exports (orphaned)
  and the files with imports but no exports.

  Modelling decisions, all of them about the Python library and not about the script:
  \<^item> a path is the list of its components below the POSIX root; every path of the script
    is absolute, because \<open>main\<close> resolves the root before anything else;
  \<^item> the file system is a tree without symbolic links, so that \<open>Path.resolve\<close> is the
    lexical normalisation of \<open>..\<close>;
  \<^item> a Python set that the script iterates is a list (its iteration order); membership
    and emptiness are asked of the list. The iteration order of
    \<open>include_extensions\<close>, a set of strings whose order follows the hash seed of the
    process, is a field of the detector;
  \<^item> a \<open>defaultdict(set)\<close> is an association list read with the default \<open>[]\<close>;
  \<^item> the content of a file is the sequence of what Python's UTF-8 decoder makes of its
    bytes: the characters it decodes, and the byte sequences it cannot decode;
  \<^item> an exception is the left injection of a sum, printing is a list of messages;
  \<^item> the attributes \<open>imports\<close> and \<open>exports\<close> of the detector are the fields
    \<open>imports_of\<close> and \<open>exports_of\<close>, and the four counts of the summary have names
    of their own, because a record cannot share a field name with another record.
\<close>

subsection \<open>Strings\<close>

definition startswith :: "string \<Rightarrow> string \<Rightarrow> bool" where
  "startswith s p = (take (length p) s = p)"

definition endswith :: "string \<Rightarrow> string \<Rightarrow> bool" where
  "endswith s p = (length p \<le> length s \<and> drop (length s - length p) s = p)"

text \<open>\<open>s.split(c)\<close> for a one-character separator.\<close>

fun split_on :: "char \<Rightarrow> string \<Rightarrow> string list" where
  "split_on c [] = [[]]"
| "split_on c (x # xs) =
     (if x = c then [] # split_on c xs
      else (case split_on c xs of [] \<Rightarrow> [[x]] | y # ys \<Rightarrow> (x # y) # ys))"

text \<open>\<open>sep.join(xs)\<close>.\<close>

fun join_with :: "string \<Rightarrow> string list \<Rightarrow> string" where
  "join_with sep [] = []"
| "join_with sep [x] = x"
| "join_with sep (x # y # ys) = x @ sep @ join_with sep (y # ys)"

text \<open>\<open>s.rfind(c)\<close>: the last index of the character, if any.\<close>

fun rfind :: "char \<Rightarrow> string \<Rightarrow> nat option" where
  "rfind c [] = None"
| "rfind c (x # xs) =
     (case rfind c xs of Some i \<Rightarrow> Some (Suc i)
      | None \<Rightarrow> if x = c then Some 0 else None)"

text \<open>\<open>xs.index(x)\<close>: the first index of the element; Python raises ValueError on None.\<close>

fun index_of :: "'a \<Rightarrow> 'a list \<Rightarrow> nat option" where
  "index_of x [] = None"
| "index_of x (y # ys) =
     (if x = y then Some 0 else (case index_of x ys of None \<Rightarrow> None | Some i \<Rightarrow> Some (Suc i)))"

subsection \<open>Errors and paths\<close>

datatype error = ValueError | OSError

type_synonym path = "string list"

text \<open>\<open>Path.parts\<close> of an absolute path starts with the root.\<close>

definition parts :: "path \<Rightarrow> string list" where
  "parts p = ''/'' # p"

text \<open>\<open>Path(*ps)\<close> for a tuple of parts that starts with the root.\<close>

definition path_of_parts :: "string list \<Rightarrow> path" where
  "path_of_parts ps = tl ps"

definition name :: "path \<Rightarrow> string" where
  "name p = (if p = [] then [] else last p)"

definition parent :: "path \<Rightarrow> path" where
  "parent p = butlast p"

text \<open>
  \<open>PurePath.suffix\<close>: the part of the name from its last dot, when that dot is neither
  the first nor the last character of the name.
\<close>

definition suffix_of_name :: "string \<Rightarrow> string" where
  "suffix_of_name n =
     (case rfind (CHR ''.'') n of
        None \<Rightarrow> []
      | Some i \<Rightarrow> if 0 < i \<and> i < length n - 1 then drop i n else [])"

definition suffix :: "path \<Rightarrow> string" where
  "suffix p = suffix_of_name (name p)"

text \<open>\<open>PurePath.with_suffix\<close>: ValueError on an empty name, else the suffix is replaced.\<close>

definition with_suffix :: "path \<Rightarrow> string \<Rightarrow> error + path" where
  "with_suffix p ext =
     (if name p = [] then Inl ValueError
      else let old = suffix p;
               n = (if old = [] then name p @ ext
                    else take (length (name p) - length old) (name p) @ ext)
           in Inr (butlast p @ [n]))"

text \<open>
  \<open>base / s\<close>: the string is cut at the slashes, empty components and \<open>.\<close> are dropped;
  an absolute string replaces the base.
\<close>

definition str_components :: "string \<Rightarrow> string list" where
  "str_components s = filter (\<lambda>c. c \<noteq> [] \<and> c \<noteq> ''.'') (split_on (CHR ''/'') s)"

definition joinpath :: "path \<Rightarrow> string \<Rightarrow> path" where
  "joinpath base s =
     (if startswith s ''/'' then str_components s else base @ str_components s)"

text \<open>\<open>Path.resolve\<close> without symbolic links: \<open>..\<close> removes the component before it.\<close>

definition resolve :: "path \<Rightarrow> path" where
  "resolve p = fold (\<lambda>c acc. if c = ''..'' then butlast acc else acc @ [c]) p []"

text \<open>\<open>p.relative_to(root)\<close>: ValueError unless root is a prefix of the path.\<close>

definition relative_to :: "path \<Rightarrow> path \<Rightarrow> error + path" where
  "relative_to p root =
     (if take (length root) p = root then Inr (drop (length root) p) else Inl ValueError)"

text \<open>\<open>str\<close> of a relative path.\<close>

definition str_of_relative :: "path \<Rightarrow> string" where
  "str_of_relative p = (if p = [] then ''.'' else join_with ''/'' p)"

text \<open>\<open>str\<close> of an absolute path.\<close>

definition str_of_path :: "path \<Rightarrow> string" where
  "str_of_path p = ''/'' @ join_with ''/'' p"

subsection \<open>The file system\<close>

text \<open>
  The bytes of a file, cut where the UTF-8 decoder cuts them: a character that the bytes
  encode, or a sequence of bytes that is not valid UTF-8.
\<close>

datatype piece = Decoded char | Undecodable string

text \<open>A file holds its content, or None when reading it fails.\<close>

datatype node = File "piece list option" | Dir "(string \<times> node) list"

text \<open>
  \<open>bytes.decode(encoding='utf-8', errors='ignore')\<close>: what cannot be decoded is left
  out, and nothing is raised.
\<close>

definition decode_ignore :: "piece list \<Rightarrow> string" where
  "decode_ignore ps = concat (map (\<lambda>p. case p of Decoded c \<Rightarrow> [c] | Undecodable bs \<Rightarrow> []) ps)"

text \<open>The content of a file in which every byte sequence is valid.\<close>

definition plain :: "string \<Rightarrow> piece list" where
  "plain s = map Decoded s"

fun lookup :: "node \<Rightarrow> path \<Rightarrow> node option" where
  "lookup n [] = Some n"
| "lookup (File t) (c # cs) = None"
| "lookup (Dir es) (c # cs) =
     (case map_of es c of None \<Rightarrow> None | Some n \<Rightarrow> lookup n cs)"

definition exists :: "node \<Rightarrow> path \<Rightarrow> bool" where
  "exists w p = (lookup w p \<noteq> None)"

definition is_file :: "node \<Rightarrow> path \<Rightarrow> bool" where
  "is_file w p = (case lookup w p of Some (File t) \<Rightarrow> True | _ \<Rightarrow> False)"

definition is_dir :: "node \<Rightarrow> path \<Rightarrow> bool" where
  "is_dir w p = (case lookup w p of Some (Dir es) \<Rightarrow> True | _ \<Rightarrow> False)"

text \<open>
  \<open>Path.read_text(encoding='utf-8', errors='ignore')\<close>: OSError when the file cannot be
  read, else its decoded text.
\<close>

definition read_text :: "node \<Rightarrow> path \<Rightarrow> error + string" where
  "read_text w p =
     (case lookup w p of Some (File (Some ps)) \<Rightarrow> Inr (decode_ignore ps) | _ \<Rightarrow> Inl OSError)"

subsection \<open>The detector\<close>

type_synonym ('k, 'v) defaultdict = "('k \<times> 'v list) list"

definition dd_get :: "('k, 'v) defaultdict \<Rightarrow> 'k \<Rightarrow> 'v list" where
  "dd_get d k = (case map_of d k of None \<Rightarrow> [] | Some v \<Rightarrow> v)"

fun dd_set :: "('k, 'v) defaultdict \<Rightarrow> 'k \<Rightarrow> 'v list \<Rightarrow> ('k, 'v) defaultdict" where
  "dd_set [] k v = [(k, v)]"
| "dd_set ((k', v') # d) k v = (if k' = k then (k, v) # d else (k', v') # dd_set d k v)"

definition dd_values :: "('k, 'v) defaultdict \<Rightarrow> 'v list list" where
  "dd_values d = map snd d"

text \<open>\<open>d[k].add(x)\<close> and \<open>d[k].append(x)\<close>.\<close>

definition dd_add :: "('k, 'v) defaultdict \<Rightarrow> 'k \<Rightarrow> 'v \<Rightarrow> ('k, 'v) defaultdict" where
  "dd_add d k x = dd_set d k (List.insert x (dd_get d k))"

definition dd_append :: "('k, 'v) defaultdict \<Rightarrow> 'k \<Rightarrow> 'v \<Rightarrow> ('k, 'v) defaultdict" where
  "dd_append d k x = dd_set d k (dd_get d k @ [x])"

subsection \<open>Regular expressions\<close>

text \<open>
  The script uses Python's \<open>re\<close> on a fixed table of patterns. The fragment they need is
  modelled as a backtracking matcher that lists the ways a pattern matches at the start
  of a string in the order in which Python tries them, so that the head of the list is
  Python's match. A text is a string of the characters below 256; the classes \<open>\s\<close> and
  \<open>\w\<close> are Python's Unicode classes on that range.
\<close>

datatype cclass = Space | Word | Dot | AnyOf string | NoneOf string

fun in_class :: "cclass \<Rightarrow> char \<Rightarrow> bool" where
  "in_class Space c =
     (let n = (of_char c :: nat) in (9 \<le> n \<and> n \<le> 13) \<or> (28 \<le> n \<and> n \<le> 32) \<or> n = 133 \<or> n = 160)"
| "in_class Word c =
     (let n = (of_char c :: nat) in
        (48 \<le> n \<and> n \<le> 57) \<or> (65 \<le> n \<and> n \<le> 90) \<or> n = 95 \<or> (97 \<le> n \<and> n \<le> 122) \<or>
        n = 170 \<or> n = 178 \<or> n = 179 \<or> n = 181 \<or> n = 185 \<or> n = 186 \<or>
        (188 \<le> n \<and> n \<le> 190) \<or> (192 \<le> n \<and> n \<le> 214) \<or> (216 \<le> n \<and> n \<le> 246) \<or> 248 \<le> n)"
| "in_class Dot c = (c \<noteq> CHR 0x0A)"
| "in_class (AnyOf cs) c = (c \<in> set cs)"
| "in_class (NoneOf cs) c = (c \<notin> set cs)"

datatype rx =
    Lit string
  | One cclass
  | Plus cclass
  | Star cclass
  | LazyStar cclass
  | Seq rx rx
  | Alt rx rx
  | Opt rx
  | Group rx

text \<open>The number of leading characters of the string that are in the class.\<close>

definition run :: "cclass \<Rightarrow> string \<Rightarrow> nat" where
  "run c s = length (takeWhile (in_class c) s)"

text \<open>
  \<open>rmatch r s g\<close>: every way \<open>r\<close> matches a prefix of \<open>s\<close>, as the rest of the string and
  the text of group 1 (\<open>g\<close> before the match), in backtracking order: a greedy repetition
  tries the longest run first, the lazy one the shortest, an option tries its body first.
\<close>

fun rmatch :: "rx \<Rightarrow> string \<Rightarrow> string option \<Rightarrow> (string \<times> string option) list" where
  "rmatch (Lit l) s g = (if startswith s l then [(drop (length l) s, g)] else [])"
| "rmatch (One c) s g = (case s of [] \<Rightarrow> [] | x # xs \<Rightarrow> if in_class c x then [(xs, g)] else [])"
| "rmatch (Plus c) s g = map (\<lambda>k. (drop k s, g)) (rev [1..<Suc (run c s)])"
| "rmatch (Star c) s g = map (\<lambda>k. (drop k s, g)) (rev [0..<Suc (run c s)])"
| "rmatch (LazyStar c) s g = map (\<lambda>k. (drop k s, g)) [0..<Suc (run c s)]"
| "rmatch (Seq a b) s g = concat (map (\<lambda>(r, g'). rmatch b r g') (rmatch a s g))"
| "rmatch (Alt a b) s g = rmatch a s g @ rmatch b s g"
| "rmatch (Opt a) s g = rmatch a s g @ [(s, g)]"
| "rmatch (Group a) s g =
     map (\<lambda>(r, g'). (r, Some (take (length s - length r) s))) (rmatch a s g)"

text \<open>
  \<open>re.finditer\<close>: the matches from left to right, each as the pair of \<open>group(0)\<close> and
  \<open>group(1)\<close>; the search goes on where the match ended, and one character further
  after a match of nothing.
\<close>

function finditer :: "rx \<Rightarrow> string \<Rightarrow> (string \<times> string option) list" where
  "finditer r s =
     (case rmatch r s None of
        [] \<Rightarrow> (case s of [] \<Rightarrow> [] | x # xs \<Rightarrow> finditer r xs)
      | m # ms \<Rightarrow>
          (take (length s - length (fst m)) s, snd m) #
          (if length (fst m) < length s then finditer r (fst m)
           else (case s of [] \<Rightarrow> [] | x # xs \<Rightarrow> finditer r xs)))"
  by pat_completeness auto
termination
  by (relation "measure (\<lambda>(r, s). length s)") auto

definition findall :: "rx \<Rightarrow> string \<Rightarrow> string list" where
  "findall r s = map fst (finditer r s)"

fun seqs :: "rx list \<Rightarrow> rx" where
  "seqs [] = Lit []"
| "seqs [r] = r"
| "seqs (r # rs) = Seq r (seqs rs)"

fun alts :: "string list \<Rightarrow> rx" where
  "alts [] = Lit []"
| "alts [l] = Lit l"
| "alts (l # ls) = Alt (Lit l) (alts ls)"

definition quote :: cclass where
  "quote = AnyOf [CHR 0x22, CHR 0x27]"

definition quoted :: "rx list" where
  "quoted = [One quote, Group (Plus (NoneOf [CHR 0x22, CHR 0x27])), One quote]"

definition import_patterns :: "rx list" where
  "import_patterns =
     [seqs ([Lit ''import'', Plus Space, LazyStar Dot, Plus Space, Lit ''from'', Plus Space] @ quoted),
      seqs ([Lit ''import'', Star Space, Lit ''(''] @ quoted @ [Lit '')'']),
      seqs ([Lit ''require'', Star Space, Lit ''(''] @ quoted @ [Lit '')'']),
      seqs ([Lit ''from'', Plus Space] @ quoted)]"

definition export_patterns :: "rx list" where
  "export_patterns =
     [seqs [Lit ''export'', Plus Space,
            Opt (Seq (Lit ''default'') (Plus Space)),
            Opt (Seq (Lit ''async'') (Plus Space)),
            alts [''function'', ''class'', ''const'', ''let'', ''var'', ''interface'', ''type'', ''enum''],
            Plus Space, Group (Plus Word)],
      seqs [Lit ''export'', Star Space, Lit ''{'', Group (Plus (NoneOf ''}'')), Lit ''}''],
      seqs [Lit ''export'', Plus Space, Lit ''default'']]"

subsection \<open>Reports and messages\<close>

record summary =
  total_files :: nat
  unused_count :: nat
  orphaned_count :: nat
  no_exports_count :: nat

record report =
  summary_of :: summary
  unused_files :: "(string, path) defaultdict"
  orphaned_files :: "(string, path) defaultdict"
  files_with_no_exports :: "(string, path) defaultdict"

text \<open>What the script prints; the layout of the two report formats is not modelled.\<close>

datatype message =
    Scanning path
  | Found nat
  | Building
  | Warning path error
  | RootMissing path
  | JsonReport report
  | TextReport report bool

record detector =
  root_dir :: path
  include_extensions :: "string list"
  files :: "path list"
  imports_of :: "(path, string) defaultdict"
  exports_of :: "(path, string) defaultdict"
  file_imports :: "(path, path) defaultdict"
  stdout :: "message list"

definition exclude_dirs :: "string set" where
  "exclude_dirs = {''node_modules'', ''.next'', ''dist'', ''build'', ''.turbo'',
     ''.git'', ''.vercel'', ''output'', ''.husky'', ''.claude'',
     ''__pycache__'', ''.pytest_cache'', ''coverage'',
     ''playwright-report'', ''.playwright-mcp''}"

definition entry_patterns :: "string set" where
  "entry_patterns = {''page.tsx'', ''layout.tsx'', ''route.ts'', ''middleware.ts'',
     ''app.tsx'', ''app.ts'', ''_app.tsx'', ''_document.tsx'',
     ''index.ts'', ''index.tsx'', ''index.js'', ''index.jsx'',
     ''main.ts'', ''main.tsx'', ''main.js'', ''main.jsx'',
     ''server.ts'', ''server.js''}"

definition config_files :: "string set" where
  "config_files = {''next.config.js'', ''next.config.mjs'', ''next.config.ts'',
     ''tailwind.config.js'', ''tailwind.config.ts'',
     ''postcss.config.js'', ''postcss.config.mjs'',
     ''vitest.config.ts'', ''vite.config.ts'',
     ''playwright.config.ts'',
     ''turbo.json'', ''tsconfig.json'', ''package.json'',
     ''biome.json'', ''convex.json''}"

text \<open>The members of \<open>include_extensions\<close>, in the order of the source text.\<close>

definition source_extensions :: "string list" where
  "source_extensions = [''.ts'', ''.tsx'', ''.js'', ''.jsx'', ''.mjs'', ''.cjs'']"

definition DeadCodeDetector :: "path \<Rightarrow> string list \<Rightarrow> detector" where
  "DeadCodeDetector root exts =
     \<lparr>root_dir = root, include_extensions = exts, files = [],
      imports_of = [], exports_of = [], file_imports = [], stdout = []\<rparr>"

definition is_excluded_dir :: "path \<Rightarrow> bool" where
  "is_excluded_dir p = (\<exists>e \<in> exclude_dirs. e \<in> set (parts p))"

definition is_entry_point :: "path \<Rightarrow> bool" where
  "is_entry_point file_path =
     (let n = name file_path in
        n \<in> entry_patterns \<or>
        n \<in> config_files \<or>
        endswith n ''.spec.ts'' \<or>
        endswith n ''.test.ts'' \<or>
        endswith n ''.spec.tsx'' \<or>
        endswith n ''.test.tsx'' \<or>
        endswith n ''.spec.js'' \<or>
        endswith n ''.test.js'' \<or>
        ''convex'' \<in> set (parts file_path))"

subsection \<open>Scanning\<close>

text \<open>
  \<open>os.walk\<close> lists a directory, hands its sub-directories and files to the loop body,
  and then descends into the sub-directories that the body has left in \<open>dirs\<close>. Walking
  something that is not a directory yields nothing. \<open>scan_dir root es\<close> is the loop of
  \<open>scan_files\<close> on the directory \<open>root\<close> with the entries \<open>es\<close>, and
  \<open>scan_subdirs\<close> the descent.
\<close>

definition is_dir_entry :: "string \<times> node \<Rightarrow> bool" where
  "is_dir_entry e = (case snd e of Dir es \<Rightarrow> True | File t \<Rightarrow> False)"

fun scan_dir :: "string list \<Rightarrow> path \<Rightarrow> (string \<times> node) list \<Rightarrow> path list"
  and scan_subdirs :: "string list \<Rightarrow> path \<Rightarrow> (string \<times> node) list \<Rightarrow> path list" where
  "scan_dir exts root_path es =
     (if is_excluded_dir root_path then []
      else filter (\<lambda>file_path. suffix file_path \<in> set exts)
             (map (\<lambda>e. root_path @ [fst e]) (filter (\<lambda>e. \<not> is_dir_entry e) es)))
     @ scan_subdirs exts root_path es"
| "scan_subdirs exts root_path [] = []"
| "scan_subdirs exts root_path ((d, File t) # es) = scan_subdirs exts root_path es"
| "scan_subdirs exts root_path ((d, Dir sub) # es) =
     (if d \<notin> exclude_dirs then scan_dir exts (root_path @ [d]) sub else [])
     @ scan_subdirs exts root_path es"

definition scan_files :: "node \<Rightarrow> detector \<Rightarrow> detector" where
  "scan_files w d =
     (let found = (case lookup w (root_dir d) of
                     Some (Dir es) \<Rightarrow> scan_dir (include_extensions d) (root_dir d) es
                   | _ \<Rightarrow> []);
          fs = fold List.insert found (files d)
      in d\<lparr>files := fs, stdout := stdout d @ [Scanning (root_dir d), Found (length fs)]\<rparr>)"

subsection \<open>Extraction\<close>

text \<open>
  Both functions return their set and the warnings they print. Reading the file is the
  only statement of the \<open>try\<close> block that can raise, and it comes first, so a failure
  leaves the set empty.
\<close>

definition add_import :: "string \<times> string option \<Rightarrow> string list \<Rightarrow> string list" where
  "add_import m acc = (case snd m of Some import_path \<Rightarrow> List.insert import_path acc | None \<Rightarrow> acc)"

definition parse_imports :: "node \<Rightarrow> path \<Rightarrow> string list \<times> message list" where
  "parse_imports w file_path =
     (case read_text w file_path of
        Inl e \<Rightarrow> ([], [Warning file_path e])
      | Inr content \<Rightarrow>
          (fold (\<lambda>pattern acc. fold add_import (finditer pattern content) acc) import_patterns [], []))"

definition add_export :: "string \<times> string option \<Rightarrow> string list \<Rightarrow> string list" where
  "add_export m acc =
     (case snd m of
        Some export_name \<Rightarrow>
          if CHR ''{'' \<in> set export_name
          then fold List.insert (findall (Plus Word) export_name) acc
          else List.insert export_name acc
      | None \<Rightarrow> List.insert ''default'' acc)"

definition parse_exports :: "node \<Rightarrow> path \<Rightarrow> string list \<times> message list" where
  "parse_exports w file_path =
     (case read_text w file_path of
        Inl e \<Rightarrow> ([], [Warning file_path e])
      | Inr content \<Rightarrow>
          (fold (\<lambda>pattern acc. fold add_export (finditer pattern content) acc) export_patterns [], []))"

subsection \<open>Resolution\<close>

text \<open>The base directory of an \<open>@/\<close> specifier; ValueError where the source raises it.\<close>

definition alias_base :: "node \<Rightarrow> detector \<Rightarrow> path \<Rightarrow> error + path" where
  "alias_base w d from_file =
     (case relative_to from_file (root_dir d) of
        Inl e \<Rightarrow> Inl e
      | Inr rel \<Rightarrow>
          (let relative_path = str_of_relative rel in
           (case (if startswith relative_path ''apps/web''
                  then Inr (root_dir d @ [''apps'', ''web'', ''src''])
                  else if startswith relative_path ''apps/admin''
                  then Inr (root_dir d @ [''apps'', ''admin'', ''src''])
                  else if startswith relative_path ''packages''
                  then (case index_of ''packages'' (parts from_file) of
                          None \<Rightarrow> Inl ValueError
                        | Some pkg_idx \<Rightarrow>
                            if pkg_idx + 1 < length (parts from_file)
                            then Inr (path_of_parts (take (pkg_idx + 2) (parts from_file)) @ [''src''])
                            else Inr (parent from_file))
                  else Inr (root_dir d @ [''src'']))
            of Inl e \<Rightarrow> Inl e
             | Inr base \<Rightarrow> Inr (if \<not> exists w base then parent from_file else base))))"

text \<open>The first loop of the candidates: the suffix replaced by each extension.\<close>

fun try_extensions :: "node \<Rightarrow> path \<Rightarrow> string list \<Rightarrow> error + path option" where
  "try_extensions w candidate [] = Inr None"
| "try_extensions w candidate (ext # exts) =
     (case with_suffix candidate ext of
        Inl e \<Rightarrow> Inl e
      | Inr candidate_with_ext \<Rightarrow>
          if exists w candidate_with_ext then Inr (Some candidate_with_ext)
          else try_extensions w candidate exts)"

text \<open>The second loop: the index files of a directory.\<close>

fun try_index :: "node \<Rightarrow> path \<Rightarrow> string list \<Rightarrow> path option" where
  "try_index w candidate [] = None"
| "try_index w candidate (ext # exts) =
     (let index_file = candidate @ [''index'' @ ext] in
        if exists w index_file then Some index_file else try_index w candidate exts)"

definition resolve_import_path :: "node \<Rightarrow> detector \<Rightarrow> path \<Rightarrow> string \<Rightarrow> error + path option" where
  "resolve_import_path w d from_file import_str =
     (if \<not> startswith import_str ''.'' \<and> \<not> startswith import_str ''/'' \<and>
         \<not> startswith import_str ''@/''
      then Inr None
      else
        (case (if startswith import_str ''@/''
               then (case alias_base w d from_file of
                       Inl e \<Rightarrow> Inl e
                     | Inr base \<Rightarrow> Inr (base, drop 2 import_str))
               else Inr (parent from_file, import_str))
         of Inl e \<Rightarrow> Inl e
          | Inr (base, import_str') \<Rightarrow>
              (let candidate = resolve (joinpath base import_str') in
                 if exists w candidate \<and> is_file w candidate then Inr (Some candidate)
                 else
                   (case try_extensions w candidate (include_extensions d) of
                      Inl e \<Rightarrow> Inl e
                    | Inr (Some found) \<Rightarrow> Inr (Some found)
                    | Inr None \<Rightarrow>
                        if is_dir w candidate
                        then Inr (try_index w candidate (include_extensions d))
                        else Inr None))))"

subsection \<open>The dependency graph\<close>

text \<open>The inner loop of \<open>build_dependency_graph\<close>: one specifier of one file.\<close>

definition add_edge :: "node \<Rightarrow> detector \<Rightarrow> path \<Rightarrow> string \<Rightarrow> error + detector" where
  "add_edge w d file_path import_str =
     (case resolve_import_path w d file_path import_str of
        Inl e \<Rightarrow> Inl e
      | Inr None \<Rightarrow> Inr d
      | Inr (Some resolved) \<Rightarrow>
          if resolved \<in> set (files d)
          then Inr (d\<lparr>file_imports := dd_add (file_imports d) file_path resolved\<rparr>)
          else Inr d)"

fun add_edges :: "node \<Rightarrow> detector \<Rightarrow> path \<Rightarrow> string list \<Rightarrow> error + detector" where
  "add_edges w d file_path [] = Inr d"
| "add_edges w d file_path (import_str # rest) =
     (case add_edge w d file_path import_str of
        Inl e \<Rightarrow> Inl e
      | Inr d' \<Rightarrow> add_edges w d' file_path rest)"

text \<open>The body of the outer loop: one file.\<close>

definition build_file :: "node \<Rightarrow> detector \<Rightarrow> path \<Rightarrow> error + detector" where
  "build_file w d file_path =
     (let (imports, warn1) = parse_imports w file_path;
          (exports, warn2) = parse_exports w file_path;
          d' = d\<lparr>imports_of := dd_set (imports_of d) file_path imports,
                 exports_of := dd_set (exports_of d) file_path exports,
                 stdout := stdout d @ warn1 @ warn2\<rparr>
      in add_edges w d' file_path imports)"

fun build_files :: "node \<Rightarrow> detector \<Rightarrow> path list \<Rightarrow> error + detector" where
  "build_files w d [] = Inr d"
| "build_files w d (file_path # rest) =
     (case build_file w d file_path of
        Inl e \<Rightarrow> Inl e
      | Inr d' \<Rightarrow> build_files w d' rest)"

definition build_dependency_graph :: "node \<Rightarrow> detector \<Rightarrow> error + detector" where
  "build_dependency_graph w d = build_files w (d\<lparr>stdout := stdout d @ [Building]\<rparr>) (files d)"

subsection \<open>Classification\<close>

definition imported_files :: "detector \<Rightarrow> path list" where
  "imported_files d = concat (dd_values (file_imports d))"

definition find_unused_files :: "detector \<Rightarrow> path list" where
  "find_unused_files d =
     filter (\<lambda>file_path. file_path \<notin> set (imported_files d) \<and> \<not> is_entry_point file_path) (files d)"

definition find_orphaned_files :: "detector \<Rightarrow> path list" where
  "find_orphaned_files d =
     filter (\<lambda>file_path. dd_get (imports_of d) file_path = [] \<and> dd_get (exports_of d) file_path = []
                          \<and> \<not> is_entry_point file_path) (files d)"

definition find_files_with_no_exports :: "detector \<Rightarrow> path list" where
  "find_files_with_no_exports d =
     filter (\<lambda>file_path. dd_get (imports_of d) file_path \<noteq> [] \<and> dd_get (exports_of d) file_path = []
                          \<and> \<not> is_entry_point file_path) (files d)"

subsection \<open>The report\<close>

definition get_relative_path :: "detector \<Rightarrow> path \<Rightarrow> string" where
  "get_relative_path d file_path =
     (case relative_to file_path (root_dir d) of
        Inr rel \<Rightarrow> str_of_relative rel
      | Inl e \<Rightarrow> str_of_path file_path)"

definition category :: "string \<Rightarrow> string" where
  "category rel_path =
     (if startswith rel_path ''apps/web'' then ''Web App''
      else if startswith rel_path ''apps/admin'' then ''Admin App''
      else if startswith rel_path ''convex'' then ''Convex Backend''
      else if startswith rel_path ''packages'' then ''Packages''
      else if startswith rel_path ''scripts'' then ''Scripts''
      else if startswith rel_path ''e2e'' \<or> startswith rel_path ''tests'' then ''Tests''
      else ''Other'')"

definition categorize_files :: "detector \<Rightarrow> path list \<Rightarrow> (string, path) defaultdict" where
  "categorize_files d fs =
     fold (\<lambda>file categories. dd_append categories (category (get_relative_path d file)) file) fs []"

definition generate_report :: "detector \<Rightarrow> report" where
  "generate_report d =
     (let unused = find_unused_files d;
          orphaned = find_orphaned_files d;
          no_exports = find_files_with_no_exports d
      in \<lparr>summary_of = \<lparr>total_files = length (files d),
                         unused_count = length unused,
                         orphaned_count = length orphaned,
                         no_exports_count = length no_exports\<rparr>,
          unused_files = categorize_files d unused,
          orphaned_files = categorize_files d orphaned,
          files_with_no_exports = categorize_files d no_exports\<rparr>)"

subsection \<open>The command\<close>

text \<open>
  The arguments after parsing; \<open>root\<close> is the root already made absolute. \<open>ext_order\<close>
  is not an argument of the command: it is the order in which this process iterates the
  set \<open>include_extensions\<close>.
\<close>

record args =
  detailed :: bool
  json :: bool
  root :: path
  ext_order :: "string list"

text \<open>The detector after scanning and building, or the exception that ended the run.\<close>

definition analyse :: "node \<Rightarrow> args \<Rightarrow> error + detector" where
  "analyse w a = build_dependency_graph w (scan_files w (DeadCodeDetector (root a) (ext_order a)))"

text \<open>\<open>main\<close>: what was printed and the exit code, or the exception that ended the run.\<close>

definition main :: "node \<Rightarrow> args \<Rightarrow> error + (message list \<times> nat)" where
  "main w a =
     (if \<not> exists w (root a) then Inr ([RootMissing (root a)], 1)
      else
        (case analyse w a of
           Inl e \<Rightarrow> Inl e
         | Inr d \<Rightarrow>
             (let rep = generate_report d;
                  out = stdout d @ [if json a then JsonReport rep else TextReport rep (detailed a)]
              in if 0 < unused_count (summary_of rep) \<or> 0 < orphaned_count (summary_of rep)
                 then Inr (out, 1)
                 else Inr (out, 0))))"

subsection \<open>The invariant of the graph builder\<close>

text \<open>
  A file with an outgoing edge has been parsed, and its specifier set is not empty.
\<close>

definition graph_inv :: "node \<Rightarrow> detector \<Rightarrow> bool" where
  "graph_inv w d =
     (\<forall>f. dd_get (file_imports d) f \<noteq> [] \<longrightarrow>
          dd_get (imports_of d) f = fst (parse_imports w f) \<and> fst (parse_imports w f) \<noteq> [])"

subsection \<open>Example trees\<close>

definition import_from :: "string \<Rightarrow> string \<Rightarrow> string" where
  "import_from binding spec = ''import '' @ binding @ '' from '' @ [CHR 0x22] @ spec @ [CHR 0x22, CHR 0x0A]"

definition file_a :: path where "file_a = [''repo'', ''a.ts'']"
definition file_b :: path where "file_b = [''repo'', ''b.ts'']"
definition file_c :: path where "file_c = [''repo'', ''c.ts'']"
definition file_main :: path where "file_main = [''repo'', ''main.ts'']"
definition file_page :: path where "file_page = [''repo'', ''page.tsx'']"
definition file_foo_ts :: path where "file_foo_ts = [''repo'', ''foo.ts'']"
definition file_foo_js :: path where "file_foo_js = [''repo'', ''foo.js'']"

definition repo_args :: args where
  "repo_args = \<lparr>detailed = False, json = False, root = [''repo''], ext_order = source_extensions\<rparr>"

text \<open>The same command in a process that iterates the extensions from \<open>.js\<close> on.\<close>

definition repo_args_js_first :: args where
  "repo_args_js_first = repo_args\<lparr>ext_order := [''.js'', ''.jsx'', ''.mjs'', ''.cjs'', ''.ts'', ''.tsx'']\<rparr>"

definition repo_detector :: detector where
  "repo_detector = DeadCodeDetector [''repo''] source_extensions"

text \<open>Two files that import each other and export one name each.\<close>

definition cyclic_tree :: node where
  "cyclic_tree = Dir [(''repo'', Dir
     [(''a.ts'', File (Some (plain (import_from ''{ y }'' ''./b'' @ ''export const x = 1'')))),
      (''b.ts'', File (Some (plain (import_from ''{ x }'' ''./a'' @ ''export const y = 2''))))])]"

text \<open>An entry point that imports a file without any import or export.\<close>

definition orphan_tree :: node where
  "orphan_tree = Dir [(''repo'', Dir
     [(''main.ts'', File (Some (plain (import_from ''c'' ''./c'' @ ''export const m = 1'')))),
      (''c.ts'', File (Some (plain ''console.log(1)'')))])]"

text \<open>A tree without the directory \<open>repo\<close>.\<close>

definition missing_tree :: node where
  "missing_tree = Dir [(''other'', Dir [])]"

text \<open>A specifier with a dot in its last component, and the file it is meant for.\<close>

definition part_tree :: node where
  "part_tree = Dir [(''repo'', Dir
     [(''a.ts'', File (Some (plain (import_from ''p'' ''./name.part'')))),
      (''name.part.ts'', File (Some (plain ''export const p = 1'')))])]"

definition part_tree_shadow :: node where
  "part_tree_shadow = Dir [(''repo'', Dir
     [(''a.ts'', File (Some (plain (import_from ''p'' ''./name.part'')))),
      (''name.part.ts'', File (Some (plain ''export const p = 1''))),
      (''name.ts'', File (Some (plain ''export const q = 1'')))])]"

text \<open>Two files that cannot be read, one of them an entry point by its name.\<close>

definition unreadable_tree :: node where
  "unreadable_tree = Dir [(''repo'', Dir
     [(''a.ts'', File None), (''page.tsx'', File None)])]"

text \<open>A file with a byte that is not valid UTF-8 inside an export declaration.\<close>

definition garbled_tree :: node where
  "garbled_tree = Dir [(''repo'', Dir
     [(''a.ts'', File (Some (plain ''export const '' @ [Undecodable [CHR 0xFF]] @ plain ''x = 1'')))])]"

text \<open>Two empty test files, one for each of two scanned extensions.\<close>

definition file_x_test_jsx :: path where "file_x_test_jsx = [''repo'', ''x.test.jsx'']"
definition file_y_test_ts :: path where "file_y_test_ts = [''repo'', ''y.test.ts'']"

definition test_tree :: node where
  "test_tree = Dir [(''repo'', Dir
     [(''x.test.jsx'', File (Some (plain []))), (''y.test.ts'', File (Some (plain [])))])]"

text \<open>An entry point with an empty text.\<close>

definition entry_tree :: node where
  "entry_tree = Dir [(''repo'', Dir [(''page.tsx'', File (Some (plain [])))])]"

text \<open>A specifier that two scanned files satisfy, under different extensions.\<close>

definition twin_tree :: node where
  "twin_tree = Dir [(''repo'', Dir
     [(''main.ts'', File (Some (plain (import_from ''{ x }'' ''./foo'' @ ''export const m = 1'')))),
      (''foo.ts'', File (Some (plain ''export const x = 1''))),
      (''foo.js'', File (Some (plain ''export const x = 1'')))])]"

text \<open>A file that imports the root directory, and one under a directory whose name only
  starts with \<open>packages\<close>.\<close>

definition slash_tree :: node where
  "slash_tree = Dir [(''repo'', Dir
     [(''a.ts'', File (Some (plain (import_from ''x'' ''/''))))])]"

definition packages_tree :: node where
  "packages_tree = Dir [(''repo'', Dir
     [(''packages-old'', Dir [(''a.ts'', File (Some (plain (import_from ''x'' ''@/x''))))])])]"

section \<open>Properties\<close>

subsection \<open>Dictionaries and the graph builder\<close>

lemma dd_get_dd_set: "dd_get (dd_set d k v) k' = (if k' = k then v else dd_get d k')"
  by (induction d) (auto simp: dd_get_def)

lemma dd_get_dd_add:
  "dd_get (dd_add d k x) k' = (if k' = k then List.insert x (dd_get d k) else dd_get d k')"
  by (simp add: dd_add_def dd_get_dd_set)

lemma dd_get_in_values: "x \<in> set (dd_get d k) \<Longrightarrow> x \<in> set (concat (dd_values d))"
proof -
  assume x: "x \<in> set (dd_get d k)"
  then obtain v where v: "map_of d k = Some v" "x \<in> set v"
    by (cases "map_of d k") (auto simp: dd_get_def)
  from map_of_SomeD[OF v(1)] have "v \<in> set (dd_values d)"
    by (force simp: dd_values_def)
  with v(2) show ?thesis by auto
qed

lemma add_edge_fields:
  assumes "add_edge w d f s = Inr d'"
  shows "imports_of d' = imports_of d" "exports_of d' = exports_of d" "files d' = files d"
    "root_dir d' = root_dir d" "include_extensions d' = include_extensions d" "stdout d' = stdout d"
    "g \<noteq> f \<Longrightarrow> dd_get (file_imports d') g = dd_get (file_imports d) g"
  using assms
  by (auto simp: add_edge_def dd_get_dd_add split: sum.splits option.splits if_splits)

lemma add_edges_fields:
  assumes "add_edges w d f ss = Inr d'"
  shows "imports_of d' = imports_of d \<and> exports_of d' = exports_of d \<and> files d' = files d \<and>
    root_dir d' = root_dir d \<and> include_extensions d' = include_extensions d \<and> stdout d' = stdout d \<and>
    (\<forall>g. g \<noteq> f \<longrightarrow> dd_get (file_imports d') g = dd_get (file_imports d) g) \<and>
    (ss = [] \<longrightarrow> d' = d)"
  using assms
proof (induction ss arbitrary: d)
  case Nil
  then show ?case by simp
next
  case (Cons s ss)
  from Cons.prems obtain d1 where s1: "add_edge w d f s = Inr d1" and s2: "add_edges w d1 f ss = Inr d'"
    by (auto split: sum.splits)
  from Cons.IH[OF s2] add_edge_fields[OF s1] show ?case by simp
qed

lemma build_file_fields:
  assumes "build_file w d f = Inr d'"
  shows "files d' = files d" "root_dir d' = root_dir d" "include_extensions d' = include_extensions d"
    "dd_get (imports_of d') g = (if g = f then fst (parse_imports w f) else dd_get (imports_of d) g)"
    "dd_get (exports_of d') g = (if g = f then fst (parse_exports w f) else dd_get (exports_of d) g)"
    "g \<noteq> f \<Longrightarrow> dd_get (file_imports d') g = dd_get (file_imports d) g"
    "fst (parse_imports w f) = [] \<Longrightarrow> file_imports d' = file_imports d"
  using assms add_edges_fields[of w _ f "fst (parse_imports w f)" d']
  by (auto simp: build_file_def dd_get_dd_set split: prod.splits)

lemma build_file_inv:
  assumes "build_file w d f = Inr d'" "graph_inv w d"
  shows "graph_inv w d'"
  unfolding graph_inv_def
proof (intro allI impI)
  fix g assume ne: "dd_get (file_imports d') g \<noteq> []"
  show "dd_get (imports_of d') g = fst (parse_imports w g) \<and> fst (parse_imports w g) \<noteq> []"
  proof (cases "g = f")
    case False
    with build_file_fields(4,6)[OF assms(1), of g] ne assms(2) show ?thesis
      by (simp add: graph_inv_def)
  next
    case True
    have "fst (parse_imports w f) \<noteq> []"
    proof
      assume e: "fst (parse_imports w f) = []"
      with build_file_fields(7)[OF assms(1)] ne True have "dd_get (file_imports d) f \<noteq> []" by simp
      with assms(2) e show False by (simp add: graph_inv_def)
    qed
    with True build_file_fields(4)[OF assms(1), of g] show ?thesis by simp
  qed
qed

lemma build_files_inv:
  assumes "build_files w d fs = Inr d'" "graph_inv w d"
  shows "graph_inv w d' \<and> files d' = files d"
  using assms
proof (induction fs arbitrary: d)
  case Nil
  then show ?case by simp
next
  case (Cons f fs)
  from Cons.prems(1) obtain d1 where s1: "build_file w d f = Inr d1" and s2: "build_files w d1 fs = Inr d'"
    by (auto split: sum.splits)
  from Cons.IH[OF s2 build_file_inv[OF s1 Cons.prems(2)]] build_file_fields(1)[OF s1]
  show ?case by simp
qed

lemma build_files_other:
  assumes "build_files w d fs = Inr d'" "g \<notin> set fs"
  shows "dd_get (imports_of d') g = dd_get (imports_of d) g \<and> dd_get (exports_of d') g = dd_get (exports_of d) g"
  using assms
proof (induction fs arbitrary: d)
  case Nil
  then show ?case by simp
next
  case (Cons f fs)
  from Cons.prems(1) obtain d1 where s1: "build_file w d f = Inr d1" and s2: "build_files w d1 fs = Inr d'"
    by (auto split: sum.splits)
  from Cons.IH[OF s2] Cons.prems(2) build_file_fields(4,5)[OF s1, of g]
  show ?case by simp
qed

lemma build_files_parsed:
  assumes "build_files w d fs = Inr d'" "g \<in> set fs"
  shows "dd_get (imports_of d') g = fst (parse_imports w g) \<and> dd_get (exports_of d') g = fst (parse_exports w g)"
  using assms
proof (induction fs arbitrary: d)
  case Nil
  then show ?case by simp
next
  case (Cons f fs)
  from Cons.prems(1) obtain d1 where s1: "build_file w d f = Inr d1" and s2: "build_files w d1 fs = Inr d'"
    by (auto split: sum.splits)
  show ?case
  proof (cases "g \<in> set fs")
    case True
    from Cons.IH[OF s2 True] show ?thesis .
  next
    case False
    with Cons.prems(2) have "g = f" by simp
    with build_files_other[OF s2 False] build_file_fields(4,5)[OF s1, of g] show ?thesis by simp
  qed
qed

lemma analyse_inv:
  assumes "analyse w a = Inr d"
  shows "graph_inv w d"
    "\<forall>g \<in> set (files d). dd_get (imports_of d) g = fst (parse_imports w g) \<and> dd_get (exports_of d) g = fst (parse_exports w g)"
proof -
  let ?d0 = "(scan_files w (DeadCodeDetector (root a) (ext_order a)))\<lparr>stdout := stdout (scan_files w (DeadCodeDetector (root a) (ext_order a))) @ [Building]\<rparr>"
  have b: "build_files w ?d0 (files ?d0) = Inr d"
    using assms by (simp add: analyse_def build_dependency_graph_def)
  have i0: "graph_inv w ?d0"
    by (simp add: graph_inv_def scan_files_def DeadCodeDetector_def dd_get_def Let_def)
  from build_files_inv[OF b i0] show "graph_inv w d" by simp
  from build_files_inv[OF b i0] have "files d = files ?d0" by simp
  with build_files_parsed[OF b] show "\<forall>g \<in> set (files d). dd_get (imports_of d) g = fst (parse_imports w g) \<and> dd_get (exports_of d) g = fst (parse_exports w g)"
    by simp
qed

lemma build_file_stdout:
  assumes "build_file w d f = Inr d'"
  shows "stdout d' = stdout d @ snd (parse_imports w f) @ snd (parse_exports w f)"
  using assms add_edges_fields[of w _ f "fst (parse_imports w f)" d']
  by (auto simp: build_file_def split: prod.splits)

lemma build_files_stdout_mono:
  assumes "build_files w d fs = Inr d'"
  shows "set (stdout d) \<subseteq> set (stdout d')"
  using assms
proof (induction fs arbitrary: d)
  case Nil
  then show ?case by simp
next
  case (Cons f fs)
  from Cons.prems obtain d1 where s1: "build_file w d f = Inr d1" and s2: "build_files w d1 fs = Inr d'"
    by (auto split: sum.splits)
  from Cons.IH[OF s2] build_file_stdout[OF s1] show ?case by auto
qed

lemma build_files_warnings:
  assumes "build_files w d fs = Inr d'" "g \<in> set fs"
  shows "set (snd (parse_imports w g)) \<union> set (snd (parse_exports w g)) \<subseteq> set (stdout d')"
  using assms
proof (induction fs arbitrary: d)
  case Nil
  then show ?case by simp
next
  case (Cons f fs)
  from Cons.prems(1) obtain d1 where s1: "build_file w d f = Inr d1" and s2: "build_files w d1 fs = Inr d'"
    by (auto split: sum.splits)
  show ?case
  proof (cases "g = f")
    case True
    with build_file_stdout[OF s1] build_files_stdout_mono[OF s2] show ?thesis by auto
  next
    case False
    with Cons.prems(2) have "g \<in> set fs" by simp
    from Cons.IH[OF s2 this] show ?thesis .
  qed
qed

lemma analyse_warnings:
  assumes "analyse w a = Inr d" "g \<in> set (files d)"
  shows "set (snd (parse_imports w g)) \<union> set (snd (parse_exports w g)) \<subseteq> set (stdout d)"
proof -
  let ?d0 = "(scan_files w (DeadCodeDetector (root a) (ext_order a)))\<lparr>stdout := stdout (scan_files w (DeadCodeDetector (root a) (ext_order a))) @ [Building]\<rparr>"
  have b: "build_files w ?d0 (files ?d0) = Inr d"
    using assms(1) by (simp add: analyse_def build_dependency_graph_def)
  have i0: "graph_inv w ?d0"
    by (simp add: graph_inv_def scan_files_def DeadCodeDetector_def dd_get_def Let_def)
  from build_files_inv[OF b i0] assms(2) have "g \<in> set (files ?d0)" by simp
  from build_files_warnings[OF b this] show ?thesis .
qed

lemma build_files_unreadable:
  assumes "\<forall>g \<in> set fs. \<exists>e. read_text w g = Inl e"
  shows "\<exists>d'. build_files w d fs = Inr d'"
  using assms
proof (induction fs arbitrary: d)
  case Nil
  then show ?case by simp
next
  case (Cons f fs)
  then obtain e where "read_text w f = Inl e" by auto
  then have "\<exists>d1. build_file w d f = Inr d1"
    by (simp add: build_file_def parse_imports_def parse_exports_def)
  then obtain d1 where "build_file w d f = Inr d1" ..
  with Cons.IH[of d1] Cons.prems show ?case by simp
qed

subsection \<open>A cyclic pair\<close>

text \<open>
  C1 (as stated): when two scanned files import each other, nothing else imports them
  and neither is an entry point, both are in the unused set and neither is in the
  orphaned set. The run on \<open>cyclic_tree\<close> is such a run, and its unused set is empty:
  \<open>find_unused_files\<close> asks only whether some file imports the file, and each of the
  two is imported by the other.
\<close>

theorem C1_cyclic_pair_counterexample:
  "map_sum id files (analyse cyclic_tree repo_args) = Inr [file_b, file_a] \<and>
   map_sum id file_imports (analyse cyclic_tree repo_args)
     = Inr [(file_b, [file_a]), (file_a, [file_b])] \<and>
   \<not> is_entry_point file_a \<and> \<not> is_entry_point file_b \<and>
   map_sum id find_unused_files (analyse cyclic_tree repo_args) = Inr [] \<and>
   map_sum id find_orphaned_files (analyse cyclic_tree repo_args) = Inr []"
  by code_simp

text \<open>
  C1 (amended): in every run in which two files import each other, neither of them is in
  the unused set, and neither is in the orphaned set.
\<close>

theorem C1_cyclic_pair_imported:
  assumes "analyse w a = Inr d"
    and "fb \<in> set (dd_get (file_imports d) fa)"
    and "fa \<in> set (dd_get (file_imports d) fb)"
  shows "fa \<notin> set (find_unused_files d) \<and> fb \<notin> set (find_unused_files d) \<and>
         fa \<notin> set (find_orphaned_files d) \<and> fb \<notin> set (find_orphaned_files d)"
proof -
  from assms(2,3) have imported: "fa \<in> set (imported_files d)" "fb \<in> set (imported_files d)"
    by (auto simp: imported_files_def dest: dd_get_in_values)
  from assms(2,3) have edges: "dd_get (file_imports d) fa \<noteq> []" "dd_get (file_imports d) fb \<noteq> []"
    by auto
  with analyse_inv(1)[OF assms(1)]
  have "dd_get (imports_of d) fa \<noteq> []" "dd_get (imports_of d) fb \<noteq> []"
    by (simp_all add: graph_inv_def)
  with imported show ?thesis
    by (simp add: find_unused_files_def find_orphaned_files_def)
qed

theorem C1_cyclic_pair_imported_witness:
  "analyse cyclic_tree repo_args = Inr (projr (analyse cyclic_tree repo_args)) \<and>
   file_b \<in> set (dd_get (file_imports (projr (analyse cyclic_tree repo_args))) file_a) \<and>
   file_a \<in> set (dd_get (file_imports (projr (analyse cyclic_tree repo_args))) file_b) \<and>
   file_a \<notin> set (find_unused_files (projr (analyse cyclic_tree repo_args))) \<and>
   file_b \<notin> set (find_unused_files (projr (analyse cyclic_tree repo_args))) \<and>
   file_a \<notin> set (find_orphaned_files (projr (analyse cyclic_tree repo_args))) \<and>
   file_b \<notin> set (find_orphaned_files (projr (analyse cyclic_tree repo_args)))"
proof -
  have run: "analyse cyclic_tree repo_args = Inr (projr (analyse cyclic_tree repo_args))"
    by code_simp
  have ab: "file_b \<in> set (dd_get (file_imports (projr (analyse cyclic_tree repo_args))) file_a)"
    by code_simp
  have ba: "file_a \<in> set (dd_get (file_imports (projr (analyse cyclic_tree repo_args))) file_b)"
    by code_simp
  from C1_cyclic_pair_imported[OF run ab ba] run ab ba show ?thesis by simp
qed

subsection \<open>Orphaned and unused\<close>

text \<open>
  C2 (as stated): the orphaned set is a subset of the unused set. In the run on
  \<open>orphan_tree\<close> the file \<open>c.ts\<close> has no import and no export and is imported by
  \<open>main.ts\<close>: it is orphaned and not unused.
\<close>

theorem C2_orphaned_subset_counterexample:
  "map_sum id find_orphaned_files (analyse orphan_tree repo_args) = Inr [file_c] \<and>
   map_sum id find_unused_files (analyse orphan_tree repo_args) = Inr [] \<and>
   map_sum id imported_files (analyse orphan_tree repo_args) = Inr [file_c]"
  by code_simp

text \<open>
  C2 (amended): every orphaned file that is not the target of an edge is unused.
\<close>

theorem C2_orphaned_not_imported_unused:
  assumes "f \<in> set (find_orphaned_files d)"
    and "f \<notin> set (imported_files d)"
  shows "f \<in> set (find_unused_files d)"
  using assms by (simp add: find_orphaned_files_def find_unused_files_def)

theorem C2_orphaned_not_imported_unused_witness:
  "file_a \<in> set (find_orphaned_files (projr (analyse unreadable_tree repo_args))) \<and>
   file_a \<notin> set (imported_files (projr (analyse unreadable_tree repo_args))) \<and>
   file_a \<in> set (find_unused_files (projr (analyse unreadable_tree repo_args)))"
proof -
  have o: "file_a \<in> set (find_orphaned_files (projr (analyse unreadable_tree repo_args)))"
    by code_simp
  have n: "file_a \<notin> set (imported_files (projr (analyse unreadable_tree repo_args)))"
    by code_simp
  from C2_orphaned_not_imported_unused[OF o n] o n show ?thesis by simp
qed

subsection \<open>The exit code\<close>

text \<open>
  C3 (as stated): the exit code is 0 when the unused and the orphaned set are empty, 1
  when one of them is not, and a code distinct from both when the root does not exist.
  With a missing root \<open>main\<close> returns 1, the code of a run with findings.
\<close>

theorem C3_exit_code_counterexample:
  "\<not> exists missing_tree (root repo_args) \<and>
   main missing_tree repo_args = Inr ([RootMissing [''repo'']], 1) \<and>
   map_sum id find_orphaned_files (analyse orphan_tree repo_args) = Inr [file_c] \<and>
   map_sum id snd (main orphan_tree repo_args) = Inr 1"
  by code_simp

text \<open>
  C3 (amended): when the root does not exist, \<open>main\<close> prints the error, scans nothing
  and returns 1; when it exists and the analysis ends without an exception, \<open>main\<close>
  returns 0 if the unused and the orphaned set are both empty and 1 otherwise.
\<close>

theorem C3_exit_code:
  "(\<not> exists w (root a) \<longrightarrow> main w a = Inr ([RootMissing (root a)], 1)) \<and>
   (exists w (root a) \<longrightarrow>
      (\<forall>d. analyse w a = Inr d \<longrightarrow>
         map_sum id snd (main w a)
           = Inr (if find_unused_files d = [] \<and> find_orphaned_files d = [] then 0 else 1)))"
  by (simp add: main_def generate_report_def Let_def)

theorem C3_exit_code_witness:
  "\<not> exists missing_tree (root repo_args) \<and>
   main missing_tree repo_args = Inr ([RootMissing (root repo_args)], 1) \<and>
   exists cyclic_tree (root repo_args) \<and>
   analyse cyclic_tree repo_args = Inr (projr (analyse cyclic_tree repo_args)) \<and>
   find_unused_files (projr (analyse cyclic_tree repo_args)) = [] \<and>
   find_orphaned_files (projr (analyse cyclic_tree repo_args)) = [] \<and>
   map_sum id snd (main cyclic_tree repo_args) = Inr 0 \<and>
   exists orphan_tree (root repo_args) \<and>
   analyse orphan_tree repo_args = Inr (projr (analyse orphan_tree repo_args)) \<and>
   find_orphaned_files (projr (analyse orphan_tree repo_args)) \<noteq> [] \<and>
   map_sum id snd (main orphan_tree repo_args) = Inr 1"
proof -
  have m: "\<not> exists missing_tree (root repo_args)" by code_simp
  have c: "exists cyclic_tree (root repo_args)"
    "analyse cyclic_tree repo_args = Inr (projr (analyse cyclic_tree repo_args))"
    "find_unused_files (projr (analyse cyclic_tree repo_args)) = []"
    "find_orphaned_files (projr (analyse cyclic_tree repo_args)) = []"
    by code_simp+
  have p: "exists orphan_tree (root repo_args)"
    "analyse orphan_tree repo_args = Inr (projr (analyse orphan_tree repo_args))"
    "find_orphaned_files (projr (analyse orphan_tree repo_args)) \<noteq> []"
    by code_simp+
  from C3_exit_code[of missing_tree repo_args] m
  have 1: "main missing_tree repo_args = Inr ([RootMissing (root repo_args)], 1)" by simp
  from C3_exit_code[of cyclic_tree repo_args] c
  have 2: "map_sum id snd (main cyclic_tree repo_args) = Inr 0" by simp
  from C3_exit_code[of orphan_tree repo_args] p
  have 3: "map_sum id snd (main orphan_tree repo_args) = Inr 1" by simp
  from m c p 1 2 3 show ?thesis by simp
qed

subsection \<open>External specifiers\<close>

text \<open>
  C4: a specifier that starts with none of \<open>.\<close>, \<open>/\<close> and \<open>@/\<close> resolves to None, whatever
  the file, and the graph builder adds no edge for it.
\<close>

theorem C4_external_specifier:
  assumes "\<not> startswith import_str ''.''"
    and "\<not> startswith import_str ''/''"
    and "\<not> startswith import_str ''@/''"
  shows "resolve_import_path w d from_file import_str = Inr None \<and>
         add_edge w d from_file import_str = Inr d"
  using assms by (simp add: resolve_import_path_def add_edge_def)

theorem C4_external_specifier_witness:
  "\<not> startswith ''react'' ''.'' \<and> \<not> startswith ''react'' ''/'' \<and> \<not> startswith ''react'' ''@/'' \<and>
   resolve_import_path cyclic_tree repo_detector file_a ''react'' = Inr None \<and>
   add_edge cyclic_tree repo_detector file_a ''react'' = Inr repo_detector"
proof -
  have h: "\<not> startswith ''react'' ''.''" "\<not> startswith ''react'' ''/''" "\<not> startswith ''react'' ''@/''"
    by code_simp+
  from C4_external_specifier[OF h, of cyclic_tree repo_detector file_a] h show ?thesis by simp
qed

subsection \<open>The candidates of a specifier\<close>

lemma part_candidate:
  "resolve (joinpath (parent file_a) ''./name.part'') = [''repo'', ''name.part'']"
  "\<not> exists part_tree [''repo'', ''name.part'']"
  "\<not> is_dir part_tree [''repo'', ''name.part'']"
  "startswith ''./name.part'' ''.''"
  "\<not> startswith ''./name.part'' ''@/''"
  by code_simp+

lemma part_with_suffix:
  "\<forall>ext \<in> set source_extensions.
     (case with_suffix [''repo'', ''name.part''] ext of
        Inl e \<Rightarrow> False
      | Inr c \<Rightarrow> c = [''repo'', ''name'' @ ext] \<and> \<not> exists part_tree c)"
  by code_simp

lemma part_try_extensions:
  "set exts \<subseteq> set source_extensions \<Longrightarrow>
   try_extensions part_tree [''repo'', ''name.part''] exts = Inr None"
proof (induction exts)
  case Nil
  then show ?case by simp
next
  case (Cons ext exts)
  then have "ext \<in> set source_extensions" by simp
  with part_with_suffix
  have "case with_suffix [''repo'', ''name.part''] ext of
          Inl e \<Rightarrow> False | Inr c \<Rightarrow> c = [''repo'', ''name'' @ ext] \<and> \<not> exists part_tree c"
    by blast
  with Cons show ?case by (auto split: sum.splits)
qed

text \<open>
  C5 (the code at the failing input): the file \<open>a.ts\<close> imports \<open>./name.part\<close> and
  \<open>name.part.ts\<close> is beside it. \<open>with_suffix\<close> replaces \<open>.part\<close> by the extension, so the
  candidates are \<open>name.ts\<close>, \<open>name.tsx\<close> and so on: the specifier is unresolved in every
  order of the extensions, and resolves to \<open>name.ts\<close> when that file exists.
\<close>

theorem C5_suffix_replaced:
  "(set exts \<subseteq> set source_extensions \<longrightarrow>
      resolve_import_path part_tree (DeadCodeDetector [''repo''] exts) file_a ''./name.part''
        = Inr None) \<and>
   exists part_tree [''repo'', ''name.part.ts''] \<and>
   resolve_import_path part_tree_shadow repo_detector file_a ''./name.part''
     = Inr (Some [''repo'', ''name.ts''])"
proof -
  have "resolve_import_path part_tree (DeadCodeDetector [''repo''] exts) file_a ''./name.part''
          = Inr None" if "set exts \<subseteq> set source_extensions"
    using part_try_extensions[OF that] part_candidate
    by (simp add: resolve_import_path_def DeadCodeDetector_def)
  moreover have "exists part_tree [''repo'', ''name.part.ts'']" by code_simp
  moreover have "resolve_import_path part_tree_shadow repo_detector file_a ''./name.part''
     = Inr (Some [''repo'', ''name.ts''])" by code_simp
  ultimately show ?thesis by blast
qed

theorem C5_suffix_replaced_witness:
  "set source_extensions \<subseteq> set source_extensions \<and>
   resolve_import_path part_tree (DeadCodeDetector [''repo''] source_extensions) file_a ''./name.part''
     = Inr None"
  using C5_suffix_replaced[of source_extensions] by simp

subsection \<open>Files that cannot be read\<close>

text \<open>
  C6 (as stated): a file whose text cannot be read or decoded gets a warning and
  proceeds with empty import and export sets, so it is orphaned unless it is an entry
  point. Both extractors read with \<open>errors='ignore'\<close>: the file \<open>a.ts\<close> of
  \<open>garbled_tree\<close> has a byte that cannot be decoded, and the run prints no warning,
  finds the export \<open>x\<close> and does not report the file as orphaned.
\<close>

theorem C6_undecodable_counterexample:
  "map_sum id files (analyse garbled_tree repo_args) = Inr [file_a] \<and>
   \<not> is_entry_point file_a \<and>
   read_text garbled_tree file_a = Inr ''export const x = 1'' \<and>
   map_sum id stdout (analyse garbled_tree repo_args) = Inr [Scanning [''repo''], Found 1, Building] \<and>
   map_sum id exports_of (analyse garbled_tree repo_args) = Inr [(file_a, [''x''])] \<and>
   map_sum id find_orphaned_files (analyse garbled_tree repo_args) = Inr []"
  by code_simp

text \<open>
  C6 (amended): when reading a file fails, both extractors print a warning and return
  the empty set, and the loop body of the graph builder returns normally with the two
  empty sets stored and the two warnings printed. In every run that ends without an
  exception and has scanned the file, the warning is in the output of the run, the
  import and export sets of the file are empty, and the file is orphaned unless it is
  an entry point. A run in which no scanned file can be read ends without an exception.
\<close>

theorem C6_unreadable_file:
  assumes "read_text w f = Inl e"
  shows "parse_imports w f = ([], [Warning f e]) \<and>
         parse_exports w f = ([], [Warning f e]) \<and>
         build_file w d f =
           Inr (d\<lparr>imports_of := dd_set (imports_of d) f [],
                  exports_of := dd_set (exports_of d) f [],
                  stdout := stdout d @ [Warning f e, Warning f e]\<rparr>) \<and>
         (\<forall>a d'. analyse w a = Inr d' \<longrightarrow> f \<in> set (files d') \<longrightarrow>
            Warning f e \<in> set (stdout d') \<and>
            dd_get (imports_of d') f = [] \<and> dd_get (exports_of d') f = [] \<and>
            (f \<in> set (find_orphaned_files d') \<longleftrightarrow> \<not> is_entry_point f)) \<and>
         (\<forall>a. (\<forall>g \<in> set (files (scan_files w (DeadCodeDetector (root a) (ext_order a)))).
                   \<exists>e'. read_text w g = Inl e') \<longrightarrow>
              (\<exists>d'. analyse w a = Inr d'))"
proof -
  have p: "parse_imports w f = ([], [Warning f e])" "parse_exports w f = ([], [Warning f e])"
    using assms by (simp_all add: parse_imports_def parse_exports_def)
  then have b: "build_file w d f =
           Inr (d\<lparr>imports_of := dd_set (imports_of d) f [],
                  exports_of := dd_set (exports_of d) f [],
                  stdout := stdout d @ [Warning f e, Warning f e]\<rparr>)"
    by (simp add: build_file_def)
  have r: "Warning f e \<in> set (stdout d') \<and>
           dd_get (imports_of d') f = [] \<and> dd_get (exports_of d') f = [] \<and>
           (f \<in> set (find_orphaned_files d') \<longleftrightarrow> \<not> is_entry_point f)"
    if "analyse w a = Inr d'" "f \<in> set (files d')" for a d'
  proof -
    from analyse_warnings[OF that] p have "Warning f e \<in> set (stdout d')" by simp
    moreover from analyse_inv(2)[OF that(1)] that(2) p
    have "dd_get (imports_of d') f = []" "dd_get (exports_of d') f = []" by simp_all
    ultimately show ?thesis using that(2) by (simp add: find_orphaned_files_def)
  qed
  have u: "\<exists>d'. analyse w a = Inr d'"
    if "\<forall>g \<in> set (files (scan_files w (DeadCodeDetector (root a) (ext_order a)))).
          \<exists>e'. read_text w g = Inl e'" for a
    using build_files_unreadable[of "files (scan_files w (DeadCodeDetector (root a) (ext_order a)))" w] that
    by (simp add: analyse_def build_dependency_graph_def)
  from p b r u show ?thesis by blast
qed

theorem C6_unreadable_file_witness:
  "read_text unreadable_tree file_a = Inl OSError \<and>
   read_text unreadable_tree file_page = Inl OSError \<and>
   parse_imports unreadable_tree file_a = ([], [Warning file_a OSError]) \<and>
   parse_exports unreadable_tree file_a = ([], [Warning file_a OSError]) \<and>
   analyse unreadable_tree repo_args = Inr (projr (analyse unreadable_tree repo_args)) \<and>
   file_a \<in> set (files (projr (analyse unreadable_tree repo_args))) \<and>
   file_page \<in> set (files (projr (analyse unreadable_tree repo_args))) \<and>
   \<not> is_entry_point file_a \<and> is_entry_point file_page \<and>
   Warning file_a OSError \<in> set (stdout (projr (analyse unreadable_tree repo_args))) \<and>
   Warning file_page OSError \<in> set (stdout (projr (analyse unreadable_tree repo_args))) \<and>
   dd_get (imports_of (projr (analyse unreadable_tree repo_args))) file_a = [] \<and>
   dd_get (exports_of (projr (analyse unreadable_tree repo_args))) file_a = [] \<and>
   file_a \<in> set (find_orphaned_files (projr (analyse unreadable_tree repo_args))) \<and>
   file_page \<notin> set (find_orphaned_files (projr (analyse unreadable_tree repo_args)))"
proof -
  have r: "read_text unreadable_tree file_a = Inl OSError"
    "read_text unreadable_tree file_page = Inl OSError"
    by code_simp+
  have run: "analyse unreadable_tree repo_args = Inr (projr (analyse unreadable_tree repo_args))"
    by code_simp
  have s: "file_a \<in> set (files (projr (analyse unreadable_tree repo_args)))"
    "file_page \<in> set (files (projr (analyse unreadable_tree repo_args)))"
    by code_simp+
  have ep: "\<not> is_entry_point file_a" "is_entry_point file_page"
    by code_simp+
  from C6_unreadable_file[OF r(1), of repo_detector] C6_unreadable_file[OF r(2), of repo_detector]
    r run s ep
  show ?thesis by blast
qed

subsection \<open>Entry points\<close>

text \<open>
  C7 (as stated): a scanned file that matches the entry-point predicate, which the claim
  gives as the entry patterns, the configuration files, the \<open>.test.\<close> and \<open>.spec.\<close>
  suffixes and a \<open>convex\<close> segment, is in neither the unused nor the orphaned set.
  \<open>is_entry_point\<close> tests six suffixes, \<open>.spec\<close> and \<open>.test\<close> before \<open>.ts\<close>, \<open>.tsx\<close>
  and \<open>.js\<close>, while the scanner also takes \<open>.jsx\<close>, \<open>.mjs\<close> and \<open>.cjs\<close>: the empty
  test file \<open>x.test.jsx\<close> is scanned, is in both sets, and the exit code is 1. The test
  file \<open>y.test.ts\<close> beside it is in neither.
\<close>

theorem C7_test_suffix_counterexample:
  "map_sum id files (analyse test_tree repo_args) = Inr [file_y_test_ts, file_x_test_jsx] \<and>
   endswith (name file_x_test_jsx) ''.test.jsx'' \<and>
   \<not> is_entry_point file_x_test_jsx \<and>
   map_sum id find_unused_files (analyse test_tree repo_args) = Inr [file_x_test_jsx] \<and>
   map_sum id find_orphaned_files (analyse test_tree repo_args) = Inr [file_x_test_jsx] \<and>
   map_sum id snd (main test_tree repo_args) = Inr 1"
  by code_simp

text \<open>
  C7 (amended): a file whose name is an entry pattern or a configuration file, or ends
  with one of \<open>.spec.ts\<close>, \<open>.test.ts\<close>, \<open>.spec.tsx\<close>, \<open>.test.tsx\<close>, \<open>.spec.js\<close> and
  \<open>.test.js\<close>, or whose path has a component \<open>convex\<close>, is in neither the unused nor
  the orphaned set, in any state of the detector.
\<close>

theorem C7_coded_entry_point_exempt:
  assumes "name f \<in> entry_patterns \<or> name f \<in> config_files \<or>
           endswith (name f) ''.spec.ts'' \<or> endswith (name f) ''.test.ts'' \<or>
           endswith (name f) ''.spec.tsx'' \<or> endswith (name f) ''.test.tsx'' \<or>
           endswith (name f) ''.spec.js'' \<or> endswith (name f) ''.test.js'' \<or>
           ''convex'' \<in> set (parts f)"
  shows "f \<notin> set (find_unused_files d) \<and> f \<notin> set (find_orphaned_files d)"
proof -
  from assms have "is_entry_point f"
    unfolding is_entry_point_def Let_def by blast
  then show ?thesis
    by (simp add: find_unused_files_def find_orphaned_files_def)
qed

theorem C7_coded_entry_point_exempt_witness:
  "name file_page \<in> entry_patterns \<and>
   map_sum id files (analyse entry_tree repo_args) = Inr [file_page] \<and>
   map_sum id imported_files (analyse entry_tree repo_args) = Inr [] \<and>
   dd_get (imports_of (projr (analyse entry_tree repo_args))) file_page = [] \<and>
   dd_get (exports_of (projr (analyse entry_tree repo_args))) file_page = [] \<and>
   file_page \<notin> set (find_unused_files (projr (analyse entry_tree repo_args))) \<and>
   file_page \<notin> set (find_orphaned_files (projr (analyse entry_tree repo_args))) \<and>
   endswith (name file_y_test_ts) ''.test.ts'' \<and>
   file_y_test_ts \<in> set (files (projr (analyse test_tree repo_args))) \<and>
   file_y_test_ts \<notin> set (find_unused_files (projr (analyse test_tree repo_args))) \<and>
   file_y_test_ts \<notin> set (find_orphaned_files (projr (analyse test_tree repo_args)))"
proof -
  have ep: "name file_page \<in> entry_patterns" "endswith (name file_y_test_ts) ''.test.ts''"
    by code_simp+
  have run: "map_sum id files (analyse entry_tree repo_args) = Inr [file_page]"
    "map_sum id imported_files (analyse entry_tree repo_args) = Inr []"
    "dd_get (imports_of (projr (analyse entry_tree repo_args))) file_page = []"
    "dd_get (exports_of (projr (analyse entry_tree repo_args))) file_page = []"
    "file_y_test_ts \<in> set (files (projr (analyse test_tree repo_args)))"
    by code_simp+
  from C7_coded_entry_point_exempt[of file_page "projr (analyse entry_tree repo_args)"]
    C7_coded_entry_point_exempt[of file_y_test_ts "projr (analyse test_tree repo_args)"]
    ep run
  show ?thesis by blast
qed

subsection \<open>Two runs on the same tree\<close>

text \<open>
  C8 (the code at the failing input): \<open>main.ts\<close> imports \<open>./foo\<close>, and \<open>foo.ts\<close> and
  \<open>foo.js\<close> both exist. The resolver returns the first existing candidate in the
  iteration order of the set \<open>include_extensions\<close>; a process that iterates it from
  \<open>.ts\<close> on reports \<open>foo.js\<close> as unused, one that iterates it from \<open>.js\<close> on reports
  \<open>foo.ts\<close>.
\<close>

theorem C8_extension_order:
  "set (ext_order repo_args) = set (ext_order repo_args_js_first) \<and>
   root repo_args = root repo_args_js_first \<and>
   map_sum id files (analyse twin_tree repo_args)
     = map_sum id files (analyse twin_tree repo_args_js_first) \<and>
   map_sum id find_unused_files (analyse twin_tree repo_args) = Inr [file_foo_js] \<and>
   map_sum id find_unused_files (analyse twin_tree repo_args_js_first) = Inr [file_foo_ts]"
  by code_simp

subsection \<open>Exceptions of the resolver\<close>

text \<open>
  C9 (the code at the failing input): the specifier \<open>/\<close> makes the root directory the
  candidate, whose name is empty, and \<open>with_suffix\<close> raises ValueError; the exception
  ends the whole run. An \<open>@/\<close> specifier in a file under \<open>packages-old\<close> raises
  ValueError in \<open>parts.index\<close>.
\<close>

theorem C9_resolver_raises:
  "resolve_import_path slash_tree repo_detector file_a ''/'' = Inl ValueError \<and>
   file_a \<in> set (files (scan_files slash_tree repo_detector)) \<and>
   main slash_tree repo_args = Inl ValueError \<and>
   resolve_import_path packages_tree repo_detector [''repo'', ''packages-old'', ''a.ts''] ''@/x''
     = Inl ValueError \<and>
   [''repo'', ''packages-old'', ''a.ts''] \<in> set (files (scan_files packages_tree repo_detector))"
  by code_simp

subsection \<open>Orphaned and export-less\<close>

text \<open>
  C10: no file is both in the orphaned set and in the set of files without exports, in
  any state of the detector.
\<close>

theorem C10_orphaned_export_less_disjoint:
  "set (find_orphaned_files d) \<inter> set (find_files_with_no_exports d) = {}"
  by (auto simp: find_orphaned_files_def find_files_with_no_exports_def)

theorem C10_orphaned_export_less_disjoint_witness:
  "map_sum id find_orphaned_files (analyse orphan_tree repo_args) = Inr [file_c] \<and>
   file_c \<notin> set (find_files_with_no_exports (projr (analyse orphan_tree repo_args)))"
proof -
  have o: "map_sum id find_orphaned_files (analyse orphan_tree repo_args) = Inr [file_c]"
    "file_c \<in> set (find_orphaned_files (projr (analyse orphan_tree repo_args)))"
    by code_simp+
  from C10_orphaned_export_less_disjoint[of "projr (analyse orphan_tree repo_args)"] o
  show ?thesis by blast
qed

end
